theory Spec2Isabelle
  imports Main "HOL-Library.Word"
begin

section \<open>Strings\<close>

text \<open>
  A JavaScript string is a sequence of UTF-16 code units; \<open>length\<close>, \<open>slice\<close>,
  \<open>substring\<close> and \<open>startsWith\<close> all count code units. A string is therefore
  a list of 16-bit words. \<open>js\<close> turns an ASCII literal into such a list.
\<close>

type_synonym code_unit = "16 word"
type_synonym jsstring = "code_unit list"

definition js :: "string \<Rightarrow> jsstring" where
  "js s = map of_char s"

definition newline :: code_unit where
  "newline = 0x0A"

text \<open>\<open>s.startsWith(p)\<close> and \<open>s.substring(n)\<close> (one argument, \<open>n\<close> a literal).\<close>

definition startsWith :: "jsstring \<Rightarrow> jsstring \<Rightarrow> bool" where
  "startsWith s p = (take (length p) s = p)"

definition substring :: "jsstring \<Rightarrow> nat \<Rightarrow> jsstring" where
  "substring s n = drop n s"

text \<open>
  \<open>String.prototype.trim\<close> strips WhiteSpace and LineTerminator code points from both
  ends: TAB, LF, VT, FF, CR, SP, NBSP, U+1680, U+2000..U+200A, U+2028, U+2029, U+202F,
  U+205F, U+3000 and U+FEFF.
\<close>

definition is_ws :: "code_unit \<Rightarrow> bool" where
  "is_ws c = (c \<in> {0x09, 0x0A, 0x0B, 0x0C, 0x0D, 0x20, 0xA0, 0x1680, 0x2028, 0x2029,
                    0x202F, 0x205F, 0x3000, 0xFEFF}
              \<or> (0x2000 \<le> c \<and> c \<le> 0x200A))"

definition trim :: "jsstring \<Rightarrow> jsstring" where
  "trim s = rev (dropWhile is_ws (rev (dropWhile is_ws s)))"

text \<open>
  \<open>markdown.split('\n')\<close>: the pieces between newlines; the empty string gives one
  empty piece and a trailing newline gives a last empty piece. The result is never
  empty, so the first branch of the \<open>case\<close> is not taken.
\<close>

fun split_newline :: "jsstring \<Rightarrow> jsstring list" where
  "split_newline [] = [[]]"
| "split_newline (c # cs) =
     (if c = newline then [] # split_newline cs
      else (case split_newline cs of
              [] \<Rightarrow> [[c]]
            | l # ls \<Rightarrow> (c # l) # ls))"

section \<open>Data model (types/index.ts)\<close>

datatype role = User | Ai

record message =
  role :: role
  content :: jsstring
  image_opt :: "jsstring option"

record chat_session =
  id_session :: jsstring
  title :: jsstring
  messages :: "message list"
  createdAt :: nat

section \<open>Markdown interchange (utils/chatImportExport.ts)\<close>

definition exportSessionToMarkdown :: "chat_session \<Rightarrow> jsstring" where
  "exportSessionToMarkdown session =
     foldl (\<lambda>md msg.
              md @ js ''**'' @ (if role msg = User then js ''User'' else js ''AI'')
                 @ js ''**: '' @ content msg @ [newline, newline])
           (js ''# '' @ title session @ [newline, newline])
           (messages session)"

text \<open>
  One iteration of the \<open>for (const line of lines)\<close> loop of
  \<open>parseMarkdownToSession\<close>, on the pair of its two locals \<open>title\<close> and
  \<open>messages\<close>. The three \<open>if\<close> statements are independent, as in the source.
\<close>

definition parse_line :: "jsstring \<times> message list \<Rightarrow> jsstring \<Rightarrow> jsstring \<times> message list" where
  "parse_line st line =
     (let t0 = fst st; m0 = snd st;
          t1 = (if startsWith line (js ''# '') then trim (substring line 2) else t0);
          m1 = (if startsWith line (js ''**User**:'')
                then m0 @ [\<lparr>role = User, content = trim (substring line 9), image_opt = None\<rparr>]
                else m0);
          m2 = (if startsWith line (js ''**AI**:'')
                then m1 @ [\<lparr>role = Ai, content = trim (substring line 7), image_opt = None\<rparr>]
                else m1)
      in (t1, m2))"

text \<open>
  \<open>parseMarkdownToSession\<close>. \<open>None\<close> is the source's \<open>null\<close>. The two
  environment reads \<open>crypto.randomUUID()\<close> and \<open>Date.now()\<close> are the parameters
  \<open>uuid\<close> and \<open>now\<close>. Nothing in the \<open>try\<close> body raises on a string argument,
  so the \<open>catch\<close> branch has no counterpart here.
\<close>

definition parseMarkdownToSession :: "jsstring \<Rightarrow> nat \<Rightarrow> jsstring \<Rightarrow> chat_session option" where
  "parseMarkdownToSession uuid now markdown =
     (let lines = split_newline markdown;
          res = foldl parse_line (js ''Imported Chat'', []) lines
      in if length (snd res) = 0 then None
         else Some \<lparr>id_session = uuid, title = fst res, messages = snd res, createdAt = now\<rparr>)"

section \<open>Session store (utils/chatSession.ts)\<close>

text \<open>\<open>createSession\<close>; \<open>crypto.randomUUID()\<close> and \<open>Date.now()\<close> are parameters.\<close>

definition createSession :: "jsstring \<Rightarrow> nat \<Rightarrow> chat_session" where
  "createSession uuid now =
     \<lparr>id_session = uuid, title = js ''New Chat'', messages = [], createdAt = now\<rparr>"

section \<open>JavaScript values at the provider boundary\<close>

text \<open>
  \<open>puter.ai.chat\<close> is typed \<open>any\<close>: what it resolves to, or rejects with, is an
  arbitrary JavaScript value. The code observes such a value only through \<open>typeof\<close>,
  truthiness, \<open>instanceof Error\<close>, the properties \<open>message\<close> and \<open>content\<close>,
  \<open>JSON.stringify\<close> and \<open>String\<close>, so a value is modelled by its type and by
  what these observe. \<open>JNumber\<close> stands for every number (NaN is falsy like 0,
  every other non-integer truthy like a non-zero integer); \<open>JError m\<close> is an
  \<open>Error\<close> instance, whose \<open>message\<close> is the string \<open>m\<close> as its TypeScript
  declaration says; \<open>JObject\<close> is any other object and \<open>JFunction\<close> any function,
  each with its properties.
\<close>

datatype jsval =
    JUndefined
  | JNull
  | JBool bool
  | JNumber int
  | JBigInt int
  | JSymbol
  | JString jsstring
  | JError jsstring
  | JObject "(jsstring \<times> jsval) list"
  | JFunction "(jsstring \<times> jsval) list"

text \<open>
  \<open>v?.name\<close> for the two names the code reads, \<open>message\<close> and \<open>content\<close>:
  \<open>undefined\<close> on \<open>null\<close>, on \<open>undefined\<close>, on a primitive and where an object
  has no such property.
\<close>

fun get_prop :: "jsval \<Rightarrow> jsstring \<Rightarrow> jsval" where
  "get_prop (JObject ps) name = (case map_of ps name of Some v \<Rightarrow> v | None \<Rightarrow> JUndefined)"
| "get_prop (JFunction ps) name = (case map_of ps name of Some v \<Rightarrow> v | None \<Rightarrow> JUndefined)"
| "get_prop (JError m) name = (if name = js ''message'' then JString m else JUndefined)"
| "get_prop v name = JUndefined"

fun truthy :: "jsval \<Rightarrow> bool" where
  "truthy JUndefined = False"
| "truthy JNull = False"
| "truthy (JBool b) = b"
| "truthy (JNumber n) = (n \<noteq> 0)"
| "truthy (JBigInt n) = (n \<noteq> 0)"
| "truthy JSymbol = True"
| "truthy (JString s) = (s \<noteq> [])"
| "truthy (JError m) = True"
| "truthy (JObject ps) = True"
| "truthy (JFunction ps) = True"

fun is_string :: "jsval \<Rightarrow> bool" where
  "is_string (JString s) = True"
| "is_string v = False"

fun string_of :: "jsval \<Rightarrow> jsstring" where
  "string_of (JString s) = s"
| "string_of v = []"

definition js_or :: "jsval \<Rightarrow> jsval \<Rightarrow> jsval" where
  "js_or a b = (if truthy a then a else b)"

section \<open>Text generation (ai/generate)\<close>

text \<open>
  \<open>generateResponse(prompt, model = 'gpt-4o-mini', image?)\<close>. The module variable
  \<open>isGenerating\<close> is passed in and returned. The function suspends once, at
  \<open>await puter.ai.chat(...)\<close>, so it is two functions: \<open>generateResponse_enter\<close>
  runs up to the \<open>await\<close> and \<open>generateResponse_resume\<close> runs from the settled
  promise to the end. A result is \<open>Inr text\<close> for a returned string and \<open>Inl e\<close>
  for an exception that leaves the function.

  \<open>JSON.stringify\<close> may raise (the source wraps it in \<open>try\<close>): it is the parameter
  \<open>stringify\<close>, \<open>None\<close> when it raises and otherwise the text the template literal
  shows. \<open>String(...)\<close> may raise as well (an object without a primitive conversion):
  it is the parameter \<open>toStr\<close>, \<open>Inl e\<close> when it raises \<open>e\<close>. In the \<open>try\<close>
  block such an exception is caught; in the \<open>catch\<close> block, where \<open>String(error)\<close>
  is the last resort after \<open>JSON.stringify\<close>, nothing encloses it but \<open>finally\<close>,
  and it leaves the function. \<open>puter_defined\<close> is \<open>typeof puter !== 'undefined'\<close>.
\<close>

datatype payload = TextPayload jsstring | ImagePayload jsstring jsstring

datatype api_outcome = Resolved jsval | Rejected jsval

datatype gen_step = Settled "jsval + jsstring" | Awaiting payload jsstring

definition warning_sign :: jsstring where
  "warning_sign = [0x26A0, 0xFE0F]"

definition wait_text :: jsstring where
  "wait_text = warning_sign @ js '' Please wait for the current response to finish.''"

definition build_payload :: "jsstring \<Rightarrow> jsstring option \<Rightarrow> payload" where
  "build_payload prompt img_opt =
     (case img_opt of
        None \<Rightarrow> TextPayload prompt
      | Some img \<Rightarrow>
          if img = [] then TextPayload prompt
          else ImagePayload (if prompt \<noteq> [] then prompt else js ''What is in this image?'')
                 (if startsWith img (js ''data:'') then img
                  else js ''data:image/jpeg;base64,'' @ img))"

definition responseText :: "(jsval \<Rightarrow> jsval + jsstring) \<Rightarrow> jsval \<Rightarrow> jsval + jsstring" where
  "responseText toStr response =
     (let mc = get_prop (get_prop response (js ''message'')) (js ''content'');
          c = get_prop response (js ''content'');
          m = get_prop response (js ''message'')
      in if is_string response then Inr (string_of response)
         else if truthy mc \<and> is_string mc then Inr (string_of mc)
         else if truthy c \<and> is_string c then Inr (string_of c)
         else if truthy m \<and> is_string m then Inr (string_of m)
         else toStr (js_or (js_or mc c) (JString (js ''Error: Invalid response''))))"

text \<open>
  The \<open>try\<close> block after the \<open>await\<close>: a rejected promise raises there, and so
  does a \<open>String(...)\<close> that raises.
\<close>

definition after_await :: "(jsval \<Rightarrow> jsval + jsstring) \<Rightarrow> api_outcome \<Rightarrow> jsval + jsstring" where
  "after_await toStr outcome =
     (case outcome of
        Rejected e \<Rightarrow> Inl e
      | Resolved response \<Rightarrow>
          (case responseText toStr response of
             Inl e \<Rightarrow> Inl e
           | Inr t \<Rightarrow> Inr (trim t)))"

text \<open>
  The \<open>catch\<close> block: the local \<open>errorMessage\<close>, then the returned text. The inner
  \<open>try\<close> catches what \<open>JSON.stringify\<close> raises; what \<open>String(error)\<close> raises in
  the inner \<open>catch\<close> is the result \<open>Inl\<close>.
\<close>

definition errorMessage ::
  "(jsval \<Rightarrow> jsstring option) \<Rightarrow> (jsval \<Rightarrow> jsval + jsstring) \<Rightarrow> jsval \<Rightarrow> jsval + jsstring" where
  "errorMessage stringify toStr error =
     (case error of
        JError m \<Rightarrow> Inr m
      | JString s \<Rightarrow> Inr s
      | JObject ps \<Rightarrow> (case stringify error of Some s \<Rightarrow> Inr s | None \<Rightarrow> toStr error)
      | _ \<Rightarrow> Inr (js ''Unknown error''))"

definition catch_block ::
  "(jsval \<Rightarrow> jsstring option) \<Rightarrow> (jsval \<Rightarrow> jsval + jsstring) \<Rightarrow> jsval \<Rightarrow> jsval + jsstring" where
  "catch_block stringify toStr error =
     (case errorMessage stringify toStr error of
        Inl e \<Rightarrow> Inl e
      | Inr msg \<Rightarrow> Inr (warning_sign @ js '' AI Error: '' @ msg))"

definition try_catch :: "'e + 'a \<Rightarrow> ('e \<Rightarrow> 'e + 'a) \<Rightarrow> 'e + 'a" where
  "try_catch body handler = (case body of Inl e \<Rightarrow> handler e | Inr v \<Rightarrow> Inr v)"

definition generateResponse_enter ::
  "(jsval \<Rightarrow> jsstring option) \<Rightarrow> (jsval \<Rightarrow> jsval + jsstring) \<Rightarrow> bool \<Rightarrow> bool \<Rightarrow>
   jsstring \<Rightarrow> jsstring option \<Rightarrow> jsstring option \<Rightarrow> gen_step \<times> bool" where
  "generateResponse_enter stringify toStr puter_defined isGenerating prompt model img_opt =
     (if isGenerating then (Settled (Inr wait_text), isGenerating)
      else if \<not> puter_defined
        then (Settled (try_catch
                (Inl (JError (js ''Puter.js not loaded. Please refresh the page.'')))
                (catch_block stringify toStr)), False)
        else (Awaiting (build_payload prompt img_opt)
                (case model of None \<Rightarrow> js ''gpt-4o-mini'' | Some m \<Rightarrow> m), True))"

definition generateResponse_resume ::
  "(jsval \<Rightarrow> jsstring option) \<Rightarrow> (jsval \<Rightarrow> jsval + jsstring) \<Rightarrow> api_outcome \<Rightarrow> (jsval + jsstring) \<times> bool" where
  "generateResponse_resume stringify toStr outcome =
     (try_catch (after_await toStr outcome) (catch_block stringify toStr), False)"

text \<open>
  A whole call, the provider's behaviour given as the function \<open>api\<close> from the request
  (payload and model) to the way the promise settles.
\<close>

definition generateResponse ::
  "(jsval \<Rightarrow> jsstring option) \<Rightarrow> (jsval \<Rightarrow> jsval + jsstring) \<Rightarrow> bool \<Rightarrow>
   (payload \<Rightarrow> jsstring \<Rightarrow> api_outcome) \<Rightarrow> bool \<Rightarrow>
   jsstring \<Rightarrow> jsstring option \<Rightarrow> jsstring option \<Rightarrow> (jsval + jsstring) \<times> bool" where
  "generateResponse stringify toStr puter_defined api isGenerating prompt model img_opt =
     (case generateResponse_enter stringify toStr puter_defined isGenerating prompt model img_opt of
        (Settled r, g) \<Rightarrow> (r, g)
      | (Awaiting p m, g) \<Rightarrow> generateResponse_resume stringify toStr (api p m))"

section \<open>Chat controller (hooks/useChat)\<close>

text \<open>
  The state of the hook (\<open>sessions\<close>, \<open>activeSessionId\<close>, \<open>isTyping\<close>) together
  with the module variable \<open>isGenerating\<close> of ai/generate. A \<open>setSessions(prev => ...)\<close>
  is the update of \<open>sessions\<close> at that point.
\<close>

record chat_state =
  sessions :: "chat_session list"
  activeSessionId :: "jsstring option"
  isTyping :: bool
  isGenerating :: bool

definition MAX_MESSAGES :: nat where
  "MAX_MESSAGES = 50"

text \<open>\<open>[newSession, ...prev].slice(0, 10)\<close>, then \<open>setActiveSessionId\<close>.\<close>

definition handleCreateSession :: "jsstring \<Rightarrow> nat \<Rightarrow> chat_state \<Rightarrow> chat_state" where
  "handleCreateSession uuid now st =
     (let newSession = createSession uuid now
      in st\<lparr>sessions := take 10 (newSession # sessions st),
            activeSessionId := Some (id_session newSession)\<rparr>)"


text \<open>\<open>handleClearSession\<close> and \<open>handleRenameSession\<close>.\<close>

definition handleClearSession :: "chat_state \<Rightarrow> chat_state" where
  "handleClearSession st =
     (case activeSessionId st of
        None \<Rightarrow> st
      | Some active_id \<Rightarrow>
          if active_id = [] then st
          else st\<lparr>sessions := map (\<lambda>s. if id_session s = active_id then s\<lparr>messages := []\<rparr> else s)
                                  (sessions st)\<rparr>)"

definition handleRenameSession :: "jsstring \<Rightarrow> jsstring \<Rightarrow> chat_state \<Rightarrow> chat_state" where
  "handleRenameSession rename_id newTitle st =
     st\<lparr>sessions := map (\<lambda>s. if id_session s = rename_id then s\<lparr>title := newTitle\<rparr> else s)
                        (sessions st)\<rparr>"

text \<open>
  The three updaters \<open>handleSend\<close> hands to \<open>setSessions\<close>, each the callback of
  \<open>prev.map\<close>: the user turn, the assistant turn of the \<open>try\<close> block and the
  assistant turn of the \<open>catch\<close> block.
\<close>

definition trimMessages :: "message list \<Rightarrow> message list" where
  "trimMessages updatedMessages =
     (if length updatedMessages > MAX_MESSAGES
      then drop (length updatedMessages - MAX_MESSAGES) updatedMessages
      else updatedMessages)"

definition addUserMessage :: "jsstring \<Rightarrow> jsstring \<Rightarrow> jsstring option \<Rightarrow> chat_session \<Rightarrow> chat_session" where
  "addUserMessage active_id text img_opt s =
     (if id_session s = active_id then
        (let updatedMessages = messages s @ [\<lparr>role = User, content = text, image_opt = img_opt\<rparr>];
             trimmedMessages = trimMessages updatedMessages;
             newTitle =
               (if length (messages s) = 0 \<and> title s = js ''New Chat''
                then take 30 (if text \<noteq> [] then text else js ''Image Analysis'')
                       @ (if text \<noteq> [] \<and> length text > 30 then js ''...'' else [])
                else title s)
         in s\<lparr>messages := trimmedMessages, title := newTitle\<rparr>)
      else s)"

definition addAiMessage :: "jsstring \<Rightarrow> jsstring \<Rightarrow> chat_session \<Rightarrow> chat_session" where
  "addAiMessage active_id aiText s =
     (if id_session s = active_id then
        s\<lparr>messages := trimMessages (messages s @ [\<lparr>role = Ai, content = aiText, image_opt = None\<rparr>])\<rparr>
      else s)"

definition error_text :: jsstring where
  "error_text = warning_sign @ js '' Sorry, I couldn'' @ [0x27] @ js ''t generate a response.''"

definition addErrorMessage :: "jsstring \<Rightarrow> chat_session \<Rightarrow> chat_session" where
  "addErrorMessage active_id s =
     (if id_session s = active_id then
        s\<lparr>messages := messages s @ [\<lparr>role = Ai, content = error_text, image_opt = None\<rparr>]\<rparr>
      else s)"

text \<open>\<open>parts.join(sep)\<close>.\<close>

fun join :: "jsstring \<Rightarrow> jsstring list \<Rightarrow> jsstring" where
  "join sep [] = []"
| "join sep [x] = x"
| "join sep (x # y # ys) = x @ sep @ join sep (y # ys)"

text \<open>
  \<open>handleSend\<close> up to the call of \<open>generateResponse\<close>: \<open>None\<close> is the early
  \<open>return\<close> on a falsy \<open>activeSessionId\<close> (\<open>null\<close> or the empty string); otherwise
  the captured session id, the prompt, and the state after the user turn and
  \<open>setIsTyping(true)\<close>.
\<close>

definition handleSend_start ::
  "jsstring \<Rightarrow> jsstring option \<Rightarrow> chat_state \<Rightarrow> (jsstring \<times> jsstring \<times> chat_state) option" where
  "handleSend_start text img_opt st =
     (case activeSessionId st of
        None \<Rightarrow> None
      | Some active_id \<Rightarrow>
          if active_id = [] then None
          else
            (let currentHistory =
                   (case find (\<lambda>s. id_session s = active_id) (sessions st) of
                      Some s \<Rightarrow> messages s
                    | None \<Rightarrow> []);
                 st1 = st\<lparr>sessions := map (addUserMessage active_id text img_opt) (sessions st),
                           isTyping := True\<rparr>;
                 historyWindow = drop (length currentHistory - 10) currentHistory;
                 promptContext =
                   join [newline]
                     (map (\<lambda>m. (if role m = User then js ''User'' else js ''AI'') @ js '': '' @ content m)
                        historyWindow);
                 fullPrompt = promptContext @ [newline] @ js ''User: ''
                                @ (if text \<noteq> [] then text else js ''[Image uploaded]'')
                                @ [newline] @ js ''AI:''
             in Some (active_id, fullPrompt, st1)))"

text \<open>
  \<open>handleSend\<close> from the settled \<open>generateResponse\<close> promise on: \<open>Inr aiText\<close> runs
  the rest of the \<open>try\<close> block, \<open>Inl e\<close> the \<open>catch\<close> block; \<open>finally\<close> clears
  \<open>isTyping\<close>.
\<close>

definition handleSend_finish :: "jsstring \<Rightarrow> jsval + jsstring \<Rightarrow> chat_state \<Rightarrow> chat_state" where
  "handleSend_finish active_id result st =
     (let st1 = (case result of
                   Inr aiText \<Rightarrow> st\<lparr>sessions := map (addAiMessage active_id aiText) (sessions st)\<rparr>
                 | Inl e \<Rightarrow> st\<lparr>sessions := map (addErrorMessage active_id) (sessions st)\<rparr>)
      in st1\<lparr>isTyping := False\<rparr>)"

text \<open>
  \<open>handleSend\<close> against a stubbed collaborator: \<open>gen\<close> stands for
  \<open>generateResponse\<close> and settles at once, with a text or by raising.
\<close>

definition handleSend_stub ::
  "(jsstring \<Rightarrow> jsstring option \<Rightarrow> jsval + jsstring) \<Rightarrow> jsstring \<Rightarrow> jsstring option \<Rightarrow> chat_state \<Rightarrow> chat_state" where
  "handleSend_stub gen text img_opt st =
     (case handleSend_start text img_opt st of
        None \<Rightarrow> st
      | Some (active_id, fullPrompt, st1) \<Rightarrow> handleSend_finish active_id (gen fullPrompt img_opt) st1)"

text \<open>
  \<open>handleSend\<close> against \<open>generateResponse\<close> itself. The hook calls
  \<open>generateResponse(fullPrompt, image)\<close>, so its second argument lands in the
  \<open>model\<close> parameter and the \<open>image\<close> parameter stays \<open>undefined\<close>.
  \<open>handleSend_call\<close> runs until the provider request is pending or the handler is
  done; \<open>handleSend_resume\<close> runs from the settled provider request to the end.
\<close>

datatype send_status = Ignored | Done | Suspended jsstring payload jsstring

definition handleSend_call ::
  "(jsval \<Rightarrow> jsstring option) \<Rightarrow> (jsval \<Rightarrow> jsval + jsstring) \<Rightarrow> bool \<Rightarrow>
   jsstring \<Rightarrow> jsstring option \<Rightarrow> chat_state \<Rightarrow> send_status \<times> chat_state" where
  "handleSend_call stringify toStr puter_defined text img_opt st =
     (case handleSend_start text img_opt st of
        None \<Rightarrow> (Ignored, st)
      | Some (active_id, fullPrompt, st1) \<Rightarrow>
          (case generateResponse_enter stringify toStr puter_defined (isGenerating st1)
                  fullPrompt img_opt None of
             (Settled r, g) \<Rightarrow> (Done, handleSend_finish active_id r (st1\<lparr>isGenerating := g\<rparr>))
           | (Awaiting p m, g) \<Rightarrow> (Suspended active_id p m, st1\<lparr>isGenerating := g\<rparr>)))"

definition handleSend_resume ::
  "(jsval \<Rightarrow> jsstring option) \<Rightarrow> (jsval \<Rightarrow> jsval + jsstring) \<Rightarrow> jsstring \<Rightarrow> api_outcome \<Rightarrow> chat_state \<Rightarrow> chat_state" where
  "handleSend_resume stringify toStr active_id outcome st =
     (case generateResponse_resume stringify toStr outcome of
        (r, g) \<Rightarrow> handleSend_finish active_id r (st\<lparr>isGenerating := g\<rparr>))"

text \<open>A run of \<open>handleCreateSession\<close> calls, each with the id and the time it draws.\<close>

fun createSessions :: "(jsstring \<times> nat) list \<Rightarrow> chat_state \<Rightarrow> chat_state" where
  "createSessions [] st = st"
| "createSessions ((uuid, now) # rest) st = createSessions rest (handleCreateSession uuid now st)"

text \<open>The line \<open>exportSessionToMarkdown\<close> writes for one message, without its newlines.\<close>

definition message_line :: "message \<Rightarrow> jsstring" where
  "message_line msg =
     js ''**'' @ (if role msg = User then js ''User'' else js ''AI'') @ js ''**: '' @ content msg"

section \<open>Import: validity criterion\<close>

lemma parse_line_messages_empty:
  "snd (parse_line st line) = [] \<longleftrightarrow>
     snd st = [] \<and> \<not> startsWith line (js ''**User**:'') \<and> \<not> startsWith line (js ''**AI**:'')"
  by (simp add: parse_line_def Let_def)

lemma foldl_parse_line_messages_empty:
  "snd (foldl parse_line st ls) = [] \<longleftrightarrow>
     snd st = [] \<and> (\<forall>l \<in> set ls. \<not> startsWith l (js ''**User**:'') \<and> \<not> startsWith l (js ''**AI**:''))"
  by (induction ls arbitrary: st) (auto simp: parse_line_messages_empty)

text \<open>
  C9. \<open>parseMarkdownToSession\<close> returns \<open>null\<close> exactly when no line of the input
  starts with \<open>**User**:\<close> or \<open>**AI**:\<close>; nothing else about the text matters.
\<close>

theorem import_fails_iff_no_message_line:
  "parseMarkdownToSession uuid now markdown = None \<longleftrightarrow>
     \<not> (\<exists>l \<in> set (split_newline markdown).
           startsWith l (js ''**User**:'') \<or> startsWith l (js ''**AI**:''))"
  by (simp add: parseMarkdownToSession_def Let_def foldl_parse_line_messages_empty)

theorem import_fails_iff_no_message_line_witness:
  "parseMarkdownToSession (js ''u1'') 0 (js ''# Notes'' @ [newline] @ js ''no turns here'') = None
   \<and> parseMarkdownToSession (js ''u1'') 0 (js ''junk'' @ [newline] @ js ''**AI**: hi'') \<noteq> None"
proof -
  have a: "\<not> (\<exists>l \<in> set (split_newline (js ''# Notes'' @ [newline] @ js ''no turns here'')).
             startsWith l (js ''**User**:'') \<or> startsWith l (js ''**AI**:''))"
    by (simp add: js_def newline_def startsWith_def)
  have b: "\<exists>l \<in> set (split_newline (js ''junk'' @ [newline] @ js ''**AI**: hi'')).
             startsWith l (js ''**User**:'') \<or> startsWith l (js ''**AI**:'')"
    by (simp add: js_def newline_def startsWith_def)
  show ?thesis
    using a b
      import_fails_iff_no_message_line [of "js ''u1''" 0 "js ''# Notes'' @ [newline] @ js ''no turns here''"]
      import_fails_iff_no_message_line [of "js ''u1''" 0 "js ''junk'' @ [newline] @ js ''**AI**: hi''"]
    by blast
qed

section \<open>Import: which heading gives the title\<close>

text \<open>
  C4. The title should come from the first line that begins with \<open># \<close>. The loop
  assigns \<open>title\<close> at every such line and never stops looking, so with two heading
  lines the later one is kept: on the three lines \<open># A\<close>, \<open># B\<close>, \<open>**User**: hi\<close>
  the imported session is titled \<open>B\<close>, where the first heading is \<open>A\<close>.
\<close>

theorem import_title_last_heading_wins:
  "parseMarkdownToSession (js ''u1'') 0
     (js ''# A'' @ [newline] @ js ''# B'' @ [newline] @ js ''**User**: hi'')
   = Some \<lparr>id_session = js ''u1'', title = js ''B'',
           messages = [\<lparr>role = User, content = js ''hi'', image_opt = None\<rparr>],
           createdAt = 0\<rparr>"
  by (simp add: parseMarkdownToSession_def parse_line_def Let_def js_def newline_def
        startsWith_def substring_def trim_def is_ws_def)

section \<open>Creating sessions\<close>

lemma take_append_take: "take n (xs @ take n ys) = take n (xs @ ys)"
  by (simp add: min_def)

lemma sessions_handleCreateSession:
  "sessions (handleCreateSession uuid now st) = take 10 (createSession uuid now # sessions st)"
  by (simp add: handleCreateSession_def Let_def)

lemma sessions_createSessions:
  "calls \<noteq> [] \<Longrightarrow>
   sessions (createSessions calls st)
     = take 10 (rev (map (\<lambda>(u, t). createSession u t) calls) @ sessions st)"
proof (induction calls arbitrary: st)
  case Nil
  then show ?case by simp
next
  case (Cons c rest)
  obtain u t where c: "c = (u, t)" by (cases c)
  show ?case
  proof (cases "rest = []")
    case True
    then show ?thesis by (simp add: c sessions_handleCreateSession)
  next
    case False
    then have "sessions (createSessions rest (handleCreateSession u t st))
        = take 10 (rev (map (\<lambda>(u, t). createSession u t) rest) @ sessions (handleCreateSession u t st))"
      by (rule Cons.IH)
    also have "\<dots> = take 10 (rev (map (\<lambda>(u, t). createSession u t) rest) @ createSession u t # sessions st)"
      unfolding sessions_handleCreateSession by (rule take_append_take)
    finally show ?thesis by (simp add: c)
  qed
qed

lemma active_createSessions:
  "calls \<noteq> [] \<Longrightarrow> activeSessionId (createSessions calls st) = Some (fst (last calls))"
proof (induction calls arbitrary: st)
  case Nil
  then show ?case by simp
next
  case (Cons c rest)
  obtain u t where c: "c = (u, t)" by (cases c)
  show ?case
  proof (cases "rest = []")
    case True
    then show ?thesis by (simp add: c handleCreateSession_def createSession_def Let_def)
  next
    case False
    then show ?thesis using Cons.IH [of "handleCreateSession u t st"] by (simp add: c)
  qed
qed

text \<open>
  C6. Starting from a store of at most ten sessions, after any run of
  \<open>handleCreateSession\<close> calls the store still holds at most ten; after a non-empty
  run it holds the ten most recent of the created sessions (newest first) followed by the
  old ones, so the session created last is first and is the active one; and a call on a
  full store drops the last session of the list, the one that has been there longest.
\<close>

theorem createSession_cap_newest_first:
  assumes "length (sessions st) \<le> 10"
  shows "length (sessions (createSessions calls st)) \<le> 10
       \<and> (calls \<noteq> [] \<longrightarrow>
            sessions (createSessions calls st)
              = take 10 (rev (map (\<lambda>(u, t). createSession u t) calls) @ sessions st)
          \<and> hd (sessions (createSessions calls st))
              = createSession (fst (last calls)) (snd (last calls))
          \<and> activeSessionId (createSessions calls st) = Some (fst (last calls)))
       \<and> (length (sessions st) = 10 \<longrightarrow>
            sessions (handleCreateSession uuid now st)
              = createSession uuid now # butlast (sessions st))"
proof (intro conjI impI)
  show "length (sessions (createSessions calls st)) \<le> 10"
  proof (cases "calls = []")
    case True
    then show ?thesis using assms by simp
  next
    case False
    then show ?thesis by (simp add: sessions_createSessions)
  qed
next
  assume ne: "calls \<noteq> []"
  then show "sessions (createSessions calls st)
              = take 10 (rev (map (\<lambda>(u, t). createSession u t) calls) @ sessions st)"
    by (rule sessions_createSessions)
  have "hd (take 10 (rev (map (\<lambda>(u, t). createSession u t) calls) @ sessions st))
      = (\<lambda>(u, t). createSession u t) (last calls)"
    using ne by (simp add: hd_append hd_rev last_map)
  then show "hd (sessions (createSessions calls st))
              = createSession (fst (last calls)) (snd (last calls))"
    using ne by (simp add: sessions_createSessions case_prod_beta)
  show "activeSessionId (createSessions calls st) = Some (fst (last calls))"
    using ne by (rule active_createSessions)
next
  assume "length (sessions st) = 10"
  then show "sessions (handleCreateSession uuid now st)
              = createSession uuid now # butlast (sessions st)"
    by (simp add: sessions_handleCreateSession butlast_conv_take)
qed


theorem createSession_cap_newest_first_witness:
  "length (sessions (createSessions [(js ''k'', 11), (js ''l'', 12)]
       \<lparr>sessions = map (\<lambda>c. createSession [c] 0) [10, 9, 8, 7, 6, 5, 4, 3, 2, 1],
        activeSessionId = Some [10], isTyping = False, isGenerating = False\<rparr>)) \<le> 10
   \<and> sessions (createSessions [(js ''k'', 11), (js ''l'', 12)]
       \<lparr>sessions = map (\<lambda>c. createSession [c] 0) [10, 9, 8, 7, 6, 5, 4, 3, 2, 1],
        activeSessionId = Some [10], isTyping = False, isGenerating = False\<rparr>)
     = createSession (js ''l'') 12 # createSession (js ''k'') 11
         # map (\<lambda>c. createSession [c] 0) [10, 9, 8, 7, 6, 5, 4, 3]
   \<and> activeSessionId (createSessions [(js ''k'', 11), (js ''l'', 12)]
       \<lparr>sessions = map (\<lambda>c. createSession [c] 0) [10, 9, 8, 7, 6, 5, 4, 3, 2, 1],
        activeSessionId = Some [10], isTyping = False, isGenerating = False\<rparr>) = Some (js ''l'')
   \<and> sessions (handleCreateSession (js ''k'') 11
       \<lparr>sessions = map (\<lambda>c. createSession [c] 0) [10, 9, 8, 7, 6, 5, 4, 3, 2, 1],
        activeSessionId = Some [10], isTyping = False, isGenerating = False\<rparr>)
     = createSession (js ''k'') 11 # map (\<lambda>c. createSession [c] 0) [10, 9, 8, 7, 6, 5, 4, 3, 2]"
  using createSession_cap_newest_first
    [of "\<lparr>sessions = map (\<lambda>c. createSession [c] 0) [10, 9, 8, 7, 6, 5, 4, 3, 2, 1],
          activeSessionId = Some [10], isTyping = False, isGenerating = False\<rparr>"
        "[(js ''k'', 11), (js ''l'', 12)]" "js ''k''" 11]
  by simp

section \<open>Deleting the only session\<close>




section \<open>Sending: title derivation\<close>

lemma title_addAiMessage: "title (addAiMessage a t s) = title s"
  by (simp add: addAiMessage_def)

lemma title_addErrorMessage: "title (addErrorMessage a s) = title s"
  by (simp add: addErrorMessage_def)

lemma trimMessages_nonempty: "xs \<noteq> [] \<Longrightarrow> trimMessages xs \<noteq> []"
  by (auto simp: trimMessages_def MAX_MESSAGES_def)

lemma title_addUserMessage:
  "title (addUserMessage a text img s) =
     (if id_session s = a \<and> messages s = [] \<and> title s = js ''New Chat''
      then (if text = [] then js ''Image Analysis''
            else if length text > 30 then take 30 text @ js ''...'' else text)
      else title s)"
  by (simp add: addUserMessage_def Let_def js_def)

lemma messages_addUserMessage_nonempty:
  "id_session s = a \<Longrightarrow> messages (addUserMessage a text img s) \<noteq> []"
  by (simp add: addUserMessage_def Let_def trimMessages_nonempty)

lemma sessions_handleSend_finish_titles:
  "map title (sessions (handleSend_finish a r st)) = map title (sessions st)"
  by (cases r) (simp_all add: handleSend_finish_def Let_def o_def title_addAiMessage title_addErrorMessage)

lemma id_addUserMessage: "id_session (addUserMessage a text img s) = id_session s"
  by (simp add: addUserMessage_def Let_def)

lemma id_addAiMessage: "id_session (addAiMessage a t s) = id_session s"
  by (simp add: addAiMessage_def)

lemma id_addErrorMessage: "id_session (addErrorMessage a s) = id_session s"
  by (simp add: addErrorMessage_def)

lemma messages_addAiMessage_nonempty: "messages s \<noteq> [] \<Longrightarrow> messages (addAiMessage a t s) \<noteq> []"
  by (simp add: addAiMessage_def trimMessages_nonempty)

lemma messages_addErrorMessage_nonempty: "messages s \<noteq> [] \<Longrightarrow> messages (addErrorMessage a s) \<noteq> []"
  by (simp add: addErrorMessage_def)

lemma handleSend_start_None:
  "activeSessionId st = None \<or> activeSessionId st = Some [] \<Longrightarrow> handleSend_start text img st = None"
  by (auto simp: handleSend_start_def)

lemma handleSend_start_Some:
  "activeSessionId st = Some a \<Longrightarrow> a \<noteq> [] \<Longrightarrow>
   \<exists>p. handleSend_start text img st
        = Some (a, p, st\<lparr>sessions := map (addUserMessage a text img) (sessions st), isTyping := True\<rparr>)"
  by (simp add: handleSend_start_def Let_def)

lemma handleSend_stub_idle:
  "activeSessionId st = None \<or> activeSessionId st = Some [] \<Longrightarrow> handleSend_stub gen text img st = st"
  by (simp add: handleSend_stub_def handleSend_start_None)

lemma handleSend_stub_active:
  assumes "activeSessionId st = Some a" and "a \<noteq> []"
  shows "\<exists>r. handleSend_stub gen text img st
           = handleSend_finish a r
               (st\<lparr>sessions := map (addUserMessage a text img) (sessions st), isTyping := True\<rparr>)"
proof -
  from handleSend_start_Some [OF assms] obtain p where
    "handleSend_start text img st
        = Some (a, p, st\<lparr>sessions := map (addUserMessage a text img) (sessions st), isTyping := True\<rparr>)"
    by blast
  then show ?thesis by (auto simp: handleSend_stub_def)
qed

lemma sessions_handleSend_finish:
  "sessions (handleSend_finish a r st) =
     map (case r of Inr aiText \<Rightarrow> addAiMessage a aiText | Inl e \<Rightarrow> addErrorMessage a) (sessions st)"
  by (cases r) (simp_all add: handleSend_finish_def Let_def)

text \<open>
  C7, as the code has it. What a whole \<open>handleSend\<close> does to the titles, whatever
  the collaborator returns or raises: a session is retitled only if it is the active
  one, has no messages and is titled \<open>New Chat\<close>; its title becomes the text if that
  has at most 30 UTF-16 code units, the first 30 code units followed by \<open>...\<close> if it
  is longer, and \<open>Image Analysis\<close> if the text is empty. Every other title is left
  as it was. The active session has a message afterwards, so the next send derives
  nothing; and the part of \<open>handleSend\<close> that runs after the collaborator has
  settled changes no title.
\<close>

theorem send_title_derivation:
  "map title (sessions (handleSend_stub gen text img st)) =
     map (\<lambda>s. if activeSessionId st = Some (id_session s) \<and> id_session s \<noteq> []
                   \<and> messages s = [] \<and> title s = js ''New Chat''
                then (if text = [] then js ''Image Analysis''
                      else if length text > 30 then take 30 text @ js ''...'' else text)
                else title s)
         (sessions st)
   \<and> (\<forall>s \<in> set (sessions (handleSend_stub gen text img st)).
         activeSessionId st = Some (id_session s) \<and> id_session s \<noteq> [] \<longrightarrow> messages s \<noteq> [])
   \<and> map title (sessions (handleSend_finish a r st)) = map title (sessions st)"
proof (intro conjI)
  show "map title (sessions (handleSend_finish a r st)) = map title (sessions st)"
    by (rule sessions_handleSend_finish_titles)
next
  show "map title (sessions (handleSend_stub gen text img st)) =
     map (\<lambda>s. if activeSessionId st = Some (id_session s) \<and> id_session s \<noteq> []
                   \<and> messages s = [] \<and> title s = js ''New Chat''
                then (if text = [] then js ''Image Analysis''
                      else if length text > 30 then take 30 text @ js ''...'' else text)
                else title s)
         (sessions st)"
  proof (cases "activeSessionId st = None \<or> activeSessionId st = Some []")
    case True
    then show ?thesis by (auto simp: handleSend_stub_idle)
  next
    case False
    then obtain b where b: "activeSessionId st = Some b" "b \<noteq> []" by auto
    from handleSend_stub_active [OF b] obtain r' where
      "handleSend_stub gen text img st
         = handleSend_finish b r'
             (st\<lparr>sessions := map (addUserMessage b text img) (sessions st), isTyping := True\<rparr>)"
      by blast
    then have "map title (sessions (handleSend_stub gen text img st))
        = map title (map (addUserMessage b text img) (sessions st))"
      by (simp add: sessions_handleSend_finish_titles)
    also have "\<dots> = map (\<lambda>s. title (addUserMessage b text img s)) (sessions st)"
      by (simp add: o_def)
    finally show ?thesis using b by (auto simp: title_addUserMessage)
  qed
next
  show "\<forall>s \<in> set (sessions (handleSend_stub gen text img st)).
         activeSessionId st = Some (id_session s) \<and> id_session s \<noteq> [] \<longrightarrow> messages s \<noteq> []"
  proof (intro ballI impI)
    fix s'
    assume in': "s' \<in> set (sessions (handleSend_stub gen text img st))"
      and act: "activeSessionId st = Some (id_session s') \<and> id_session s' \<noteq> []"
    define b where "b = id_session s'"
    from act have b: "activeSessionId st = Some b" "b \<noteq> []" by (auto simp: b_def)
    from handleSend_stub_active [OF b] obtain r' where
      "handleSend_stub gen text img st
         = handleSend_finish b r'
             (st\<lparr>sessions := map (addUserMessage b text img) (sessions st), isTyping := True\<rparr>)"
      by blast
    with in' obtain s where s: "s \<in> set (sessions st)"
      and s': "s' = (case r' of Inr aiText \<Rightarrow> addAiMessage b aiText | Inl e \<Rightarrow> addErrorMessage b)
                     (addUserMessage b text img s)"
      by (auto simp: sessions_handleSend_finish)
    have "id_session ((case r' of Inr aiText \<Rightarrow> addAiMessage b aiText | Inl e \<Rightarrow> addErrorMessage b)
                     (addUserMessage b text img s)) = id_session s"
      by (cases r') (simp_all add: id_addAiMessage id_addErrorMessage id_addUserMessage)
    with s' have "id_session s = b" by (simp add: b_def)
    then have "messages (addUserMessage b text img s) \<noteq> []"
      by (rule messages_addUserMessage_nonempty)
    then show "messages s' \<noteq> []"
      unfolding s' by (cases r') (simp_all add: messages_addAiMessage_nonempty messages_addErrorMessage_nonempty)
  qed
qed

theorem send_title_derivation_witness:
  "map title (sessions (handleSend_stub (\<lambda>p i. Inr (js ''ok''))
       (js ''Hello world this is a fairly long opening message'') None
       \<lparr>sessions = [createSession (js ''s1'') 1,
                    \<lparr>id_session = js ''s2'', title = js ''Trip'', messages = [], createdAt = 0\<rparr>],
        activeSessionId = Some (js ''s1''), isTyping = False, isGenerating = False\<rparr>))
     = [js ''Hello world this is a fairly l...'', js ''Trip'']
   \<and> map title (sessions (handleSend_stub (\<lambda>p i. Inr (js ''ok''))
       [] (Some (js ''data:image/png;base64,AAAA''))
       \<lparr>sessions = [createSession (js ''s1'') 1,
                    \<lparr>id_session = js ''s2'', title = js ''Trip'', messages = [], createdAt = 0\<rparr>],
        activeSessionId = Some (js ''s1''), isTyping = False, isGenerating = False\<rparr>))
     = [js ''Image Analysis'', js ''Trip'']"
  using send_title_derivation
      [of "\<lambda>p i. Inr (js ''ok'')" "js ''Hello world this is a fairly long opening message''" None
          "\<lparr>sessions = [createSession (js ''s1'') 1,
                    \<lparr>id_session = js ''s2'', title = js ''Trip'', messages = [], createdAt = 0\<rparr>],
            activeSessionId = Some (js ''s1''), isTyping = False, isGenerating = False\<rparr>"]
    send_title_derivation
      [of "\<lambda>p i. Inr (js ''ok'')" "[]" "Some (js ''data:image/png;base64,AAAA'')"
          "\<lparr>sessions = [createSession (js ''s1'') 1,
                    \<lparr>id_session = js ''s2'', title = js ''Trip'', messages = [], createdAt = 0\<rparr>],
            activeSessionId = Some (js ''s1''), isTyping = False, isGenerating = False\<rparr>"]
  by (simp add: createSession_def js_def)

text \<open>
  C7, as stated, fails on "at most once per session": \<open>handleClearSession\<close> empties
  the messages and keeps the title, so a session titled \<open>New Chat\<close> at that point
  derives a title again at the next send. That is the case when its first text was
  \<open>New Chat\<close>, and when it was renamed to \<open>New Chat\<close>.
\<close>

theorem title_derived_again_after_clear:
  "map title (sessions (handleSend_stub (\<lambda>p i. Inr (js ''ok'')) (js ''New Chat'') None
       \<lparr>sessions = [createSession (js ''s1'') 1], activeSessionId = Some (js ''s1''),
        isTyping = False, isGenerating = False\<rparr>))
     = [js ''New Chat'']
   \<and> map title (sessions (handleSend_stub (\<lambda>p i. Inr (js ''ok'')) (js ''Budget'') None
       (handleClearSession
          (handleSend_stub (\<lambda>p i. Inr (js ''ok'')) (js ''New Chat'') None
             \<lparr>sessions = [createSession (js ''s1'') 1], activeSessionId = Some (js ''s1''),
              isTyping = False, isGenerating = False\<rparr>))))
     = [js ''Budget'']
   \<and> map title (sessions (handleSend_stub (\<lambda>p i. Inr (js ''ok'')) (js ''Plan'') None
       \<lparr>sessions = [createSession (js ''s1'') 1], activeSessionId = Some (js ''s1''),
        isTyping = False, isGenerating = False\<rparr>))
     = [js ''Plan'']
   \<and> map title (sessions (handleSend_stub (\<lambda>p i. Inr (js ''ok'')) (js ''Budget'') None
       (handleClearSession (handleRenameSession (js ''s1'') (js ''New Chat'')
          (handleSend_stub (\<lambda>p i. Inr (js ''ok'')) (js ''Plan'') None
             \<lparr>sessions = [createSession (js ''s1'') 1], activeSessionId = Some (js ''s1''),
              isTyping = False, isGenerating = False\<rparr>)))))
     = [js ''Budget'']"
  by (simp add: handleSend_stub_def handleSend_start_def handleSend_finish_def
        handleClearSession_def handleRenameSession_def addUserMessage_def addAiMessage_def
        trimMessages_def MAX_MESSAGES_def createSession_def Let_def js_def)

lemma handleClearSession_keeps_titles:
  "map title (sessions (handleClearSession st)) = map title (sessions st)"
  by (cases "activeSessionId st") (simp_all add: handleClearSession_def o_def)

text \<open>
  The 30 are code units, not characters: of 16 emoji, two code units each, the title
  keeps 15.
\<close>

lemma title_truncation_counts_code_units:
  "title (addUserMessage (js ''s1'') (concat (replicate 16 [0xD83D, 0xDE00])) None
            (createSession (js ''s1'') 1))
   = concat (replicate 15 [0xD83D, 0xDE00]) @ js ''...''"
  by (simp add: addUserMessage_def createSession_def Let_def trimMessages_def MAX_MESSAGES_def
        js_def eval_nat_numeral)

section \<open>Sending: a collaborator that raises\<close>

lemma length_trimMessages: "length (trimMessages xs) = min MAX_MESSAGES (length xs)"
  by (simp add: trimMessages_def)

lemma trimMessages_keeps_latest:
  "trimMessages xs = drop (length xs - MAX_MESSAGES) xs"
  by (simp add: trimMessages_def)

lemma messages_addUserMessage:
  "messages (addUserMessage a text img s) =
     (if id_session s = a
      then trimMessages (messages s @ [\<lparr>role = User, content = text, image_opt = img\<rparr>])
      else messages s)"
  by (simp add: addUserMessage_def Let_def)

lemma messages_addAiMessage:
  "messages (addAiMessage a t s) =
     (if id_session s = a
      then trimMessages (messages s @ [\<lparr>role = Ai, content = t, image_opt = None\<rparr>])
      else messages s)"
  by (simp add: addAiMessage_def)

lemma messages_addErrorMessage:
  "messages (addErrorMessage a s) =
     (if id_session s = a
      then messages s @ [\<lparr>role = Ai, content = error_text, image_opt = None\<rparr>]
      else messages s)"
  by (simp add: addErrorMessage_def)

lemma isTyping_handleSend_finish: "isTyping (handleSend_finish a r st) = False"
  by (simp add: handleSend_finish_def Let_def)

text \<open>
  C5. With a target session and a collaborator that raises, \<open>handleSend\<close> leaves in
  the active session the messages of the user turn followed by exactly one more
  message, of role \<open>ai\<close> and with the fixed error text, and leaves every other
  session as it was; and whatever the collaborator does, \<open>isTyping\<close> is false when
  \<open>handleSend\<close> is over.
\<close>

theorem send_collaborator_throws:
  assumes "activeSessionId st = Some a" and "a \<noteq> []"
  shows "map messages (sessions (handleSend_stub (\<lambda>p i. Inl e) text img st))
           = map (\<lambda>s. if id_session s = a
                       then trimMessages (messages s @ [\<lparr>role = User, content = text, image_opt = img\<rparr>])
                              @ [\<lparr>role = Ai, content = error_text, image_opt = None\<rparr>]
                       else messages s)
                 (sessions st)
       \<and> isTyping (handleSend_stub gen text img st) = False"
proof
  from handleSend_stub_active [OF assms, of gen "text" img]
  show "isTyping (handleSend_stub gen text img st) = False"
    by (auto simp: isTyping_handleSend_finish)
  from handleSend_start_Some [OF assms, of "text" img] obtain p where
    "handleSend_start text img st
        = Some (a, p, st\<lparr>sessions := map (addUserMessage a text img) (sessions st), isTyping := True\<rparr>)"
    by blast
  then have "sessions (handleSend_stub (\<lambda>p i. Inl e) text img st)
      = map (addErrorMessage a) (map (addUserMessage a text img) (sessions st))"
    by (simp add: handleSend_stub_def sessions_handleSend_finish)
  then show "map messages (sessions (handleSend_stub (\<lambda>p i. Inl e) text img st))
           = map (\<lambda>s. if id_session s = a
                       then trimMessages (messages s @ [\<lparr>role = User, content = text, image_opt = img\<rparr>])
                              @ [\<lparr>role = Ai, content = error_text, image_opt = None\<rparr>]
                       else messages s)
                 (sessions st)"
    by (simp add: o_def messages_addErrorMessage messages_addUserMessage id_addUserMessage)
qed

theorem send_collaborator_throws_witness:
  "map messages (sessions (handleSend_stub (\<lambda>p i. Inl (JError (js ''network down''))) (js ''hi'') None
       \<lparr>sessions = [createSession (js ''s1'') 1], activeSessionId = Some (js ''s1''),
        isTyping = False, isGenerating = False\<rparr>))
     = [[\<lparr>role = User, content = js ''hi'', image_opt = None\<rparr>,
         \<lparr>role = Ai, content = error_text, image_opt = None\<rparr>]]
   \<and> isTyping (handleSend_stub (\<lambda>p i. Inl (JError (js ''network down''))) (js ''hi'') None
       \<lparr>sessions = [createSession (js ''s1'') 1], activeSessionId = Some (js ''s1''),
        isTyping = False, isGenerating = False\<rparr>) = False"
proof -
  have act: "activeSessionId \<lparr>sessions = [createSession (js ''s1'') 1], activeSessionId = Some (js ''s1''),
        isTyping = False, isGenerating = False\<rparr> = Some (js ''s1'')" by simp
  have ne: "js ''s1'' \<noteq> []" by (simp add: js_def)
  from send_collaborator_throws [OF act ne, of "JError (js ''network down'')" "js ''hi''" None
        "\<lambda>p i. Inl (JError (js ''network down''))"]
  show ?thesis
    by (simp add: createSession_def trimMessages_def MAX_MESSAGES_def)
qed

section \<open>Sending: the message cap\<close>

text \<open>
  The user turn and the assistant turn of the \<open>try\<close> block trim after appending:
  the list they leave has at most \<open>MAX_MESSAGES\<close> entries, the latest ones in order.
\<close>

lemma trimming_appends_keep_cap:
  "id_session s = a \<Longrightarrow>
   length (messages (addUserMessage a text img s)) \<le> MAX_MESSAGES
   \<and> messages (addUserMessage a text img s)
       = drop (length (messages s) + 1 - MAX_MESSAGES)
           (messages s @ [\<lparr>role = User, content = text, image_opt = img\<rparr>])
   \<and> length (messages (addAiMessage a t s)) \<le> MAX_MESSAGES
   \<and> messages (addAiMessage a t s)
       = drop (length (messages s) + 1 - MAX_MESSAGES)
           (messages s @ [\<lparr>role = Ai, content = t, image_opt = None\<rparr>])"
  by (simp add: messages_addUserMessage messages_addAiMessage length_trimMessages
        trimMessages_keeps_latest)

text \<open>
  C1. The cap of 50 should hold after every append of \<open>handleSend\<close>. The assistant
  turn of the \<open>catch\<close> block appends the error message and does not trim, unlike the
  two other appends: a session of 49 messages holds 50 after the user turn and 51 after
  a send whose collaborator raises.
\<close>

theorem send_catch_exceeds_cap:
  "map (\<lambda>s. length (messages s))
     (sessions (handleSend_stub (\<lambda>p i. Inl (JError (js ''network down''))) (js ''hi'') None
        \<lparr>sessions = [\<lparr>id_session = js ''s1'', title = js ''Trip'',
                       messages = replicate 49 \<lparr>role = User, content = js ''x'', image_opt = None\<rparr>,
                       createdAt = 0\<rparr>],
         activeSessionId = Some (js ''s1''), isTyping = False, isGenerating = False\<rparr>))
   = [51]"
  by (simp add: handleSend_stub_def handleSend_start_def handleSend_finish_def Let_def
        addUserMessage_def addErrorMessage_def trimMessages_def MAX_MESSAGES_def js_def)

section \<open>Sending while a request is pending\<close>

lemma generateResponse_enter_busy:
  "generateResponse_enter stringify toStr pd True prompt model img = (Settled (Inr wait_text), True)"
  by (simp add: generateResponse_enter_def)

lemma generateResponse_enter_Awaiting:
  "generateResponse_enter stringify toStr pd g prompt model img = (Awaiting p m, g') \<Longrightarrow>
   \<not> g \<and> pd \<and> g'"
  by (auto simp: generateResponse_enter_def try_catch_def catch_block_def split: if_splits)

lemma handleSend_start_SomeD:
  "handleSend_start text img st = Some (a, p, st1) \<Longrightarrow>
   activeSessionId st = Some a \<and> a \<noteq> []
   \<and> st1 = st\<lparr>sessions := map (addUserMessage a text img) (sessions st), isTyping := True\<rparr>"
  by (auto simp: handleSend_start_def Let_def split: option.splits if_splits)

lemma handleSend_call_SuspendedD:
  assumes "handleSend_call stringify toStr pd text img st0 = (Suspended a p m, st)"
  shows "activeSessionId st = Some a \<and> a \<noteq> [] \<and> isGenerating st \<and> \<not> isGenerating st0
         \<and> sessions st = map (addUserMessage a text img) (sessions st0) \<and> isTyping st"
proof -
  from assms obtain a' p' st1 where
    start: "handleSend_start text img st0 = Some (a', p', st1)"
    by (auto simp: handleSend_call_def split: option.splits)
  with assms obtain g where
    enter: "generateResponse_enter stringify toStr pd (isGenerating st1) p' img None = (Awaiting p m, g)"
    and st: "st = st1\<lparr>isGenerating := g\<rparr>" and a: "a' = a"
    by (auto simp: handleSend_call_def split: prod.splits gen_step.splits)
  from handleSend_start_SomeD [OF start] generateResponse_enter_Awaiting [OF enter] st a
  show ?thesis by auto
qed

lemma handleSend_call_busy:
  assumes "activeSessionId st = Some a" and "a \<noteq> []" and "isGenerating st"
  shows "handleSend_call stringify toStr pd text img st
           = (Done, handleSend_finish a (Inr wait_text)
                      (st\<lparr>sessions := map (addUserMessage a text img) (sessions st),
                           isTyping := True, isGenerating := True\<rparr>))"
proof -
  from handleSend_start_Some [OF assms(1,2), of "text" img] obtain p where
    "handleSend_start text img st
        = Some (a, p, st\<lparr>sessions := map (addUserMessage a text img) (sessions st), isTyping := True\<rparr>)"
    by blast
  then show ?thesis using assms(3)
    by (simp add: handleSend_call_def generateResponse_enter_busy)
qed

text \<open>
  C2, as the code has it. \<open>handleSend\<close> has no guard of its own: the guard is the one
  inside \<open>generateResponse\<close>. When a first \<open>handleSend\<close> is suspended on its
  provider request and a second one is issued, the second runs to its end without
  issuing a request: it appends its user message to the active session, then an
  assistant message holding the wait text that \<open>generateResponse\<close> returned at
  once; \<open>isGenerating\<close> stays set for the first call and \<open>isTyping\<close> is cleared.
\<close>

theorem second_send_while_pending:
  assumes "handleSend_call stringify toStr pd text1 img1 st0 = (Suspended a p m, st)"
  shows "fst (handleSend_call stringify toStr pd text2 img2 st) = Done
       \<and> sessions (snd (handleSend_call stringify toStr pd text2 img2 st))
           = map (\<lambda>s. addAiMessage a wait_text (addUserMessage a text2 img2 s)) (sessions st)
       \<and> isGenerating (snd (handleSend_call stringify toStr pd text2 img2 st))
       \<and> \<not> isTyping (snd (handleSend_call stringify toStr pd text2 img2 st))"
proof -
  from handleSend_call_SuspendedD [OF assms]
  have "activeSessionId st = Some a" "a \<noteq> []" "isGenerating st" by auto
  from handleSend_call_busy [OF this] show ?thesis
    by (simp add: handleSend_finish_def Let_def)
qed

text \<open>
  C2, as stated, fails: in a fresh session, \<open>hi\<close> sent twice with the first request
  still pending leaves two user messages \<open>hi\<close> and the wait text as an assistant
  message.
\<close>

theorem second_send_appends_user_message:
  "map messages (sessions (snd (handleSend_call (\<lambda>v. Some (js ''{}'')) (\<lambda>v. Inr (js ''[object Object]'')) True (js ''hi'') None
      (snd (handleSend_call (\<lambda>v. Some (js ''{}'')) (\<lambda>v. Inr (js ''[object Object]'')) True (js ''hi'') None
         \<lparr>sessions = [createSession (js ''s1'') 1], activeSessionId = Some (js ''s1''),
          isTyping = False, isGenerating = False\<rparr>)))))
   = [[\<lparr>role = User, content = js ''hi'', image_opt = None\<rparr>,
       \<lparr>role = User, content = js ''hi'', image_opt = None\<rparr>,
       \<lparr>role = Ai, content = wait_text, image_opt = None\<rparr>]]
   \<and> fst (handleSend_call (\<lambda>v. Some (js ''{}'')) (\<lambda>v. Inr (js ''[object Object]'')) True (js ''hi'') None
         \<lparr>sessions = [createSession (js ''s1'') 1], activeSessionId = Some (js ''s1''),
          isTyping = False, isGenerating = False\<rparr>)
     = Suspended (js ''s1'') (TextPayload ([newline] @ js ''User: hi'' @ [newline] @ js ''AI:''))
         (js ''gpt-4o-mini'')"
  by (simp add: handleSend_call_def handleSend_start_def handleSend_finish_def Let_def
        generateResponse_enter_def build_payload_def createSession_def
        addUserMessage_def addAiMessage_def trimMessages_def MAX_MESSAGES_def js_def)

theorem second_send_while_pending_witness:
  "fst (handleSend_call (\<lambda>v. Some (js ''{}'')) (\<lambda>v. Inr (js ''[object Object]'')) True (js ''again'') None
      \<lparr>sessions = [\<lparr>id_session = js ''s1'', title = js ''hi'',
                     messages = [\<lparr>role = User, content = js ''hi'', image_opt = None\<rparr>],
                     createdAt = 1\<rparr>],
       activeSessionId = Some (js ''s1''), isTyping = True, isGenerating = True\<rparr>) = Done
   \<and> map messages (sessions (snd (handleSend_call (\<lambda>v. Some (js ''{}'')) (\<lambda>v. Inr (js ''[object Object]'')) True (js ''again'') None
      \<lparr>sessions = [\<lparr>id_session = js ''s1'', title = js ''hi'',
                     messages = [\<lparr>role = User, content = js ''hi'', image_opt = None\<rparr>],
                     createdAt = 1\<rparr>],
       activeSessionId = Some (js ''s1''), isTyping = True, isGenerating = True\<rparr>)))
     = [[\<lparr>role = User, content = js ''hi'', image_opt = None\<rparr>,
         \<lparr>role = User, content = js ''again'', image_opt = None\<rparr>,
         \<lparr>role = Ai, content = wait_text, image_opt = None\<rparr>]]"
proof -
  have first:
    "handleSend_call (\<lambda>v. Some (js ''{}'')) (\<lambda>v. Inr (js ''[object Object]'')) True (js ''hi'') None
       \<lparr>sessions = [createSession (js ''s1'') 1], activeSessionId = Some (js ''s1''),
        isTyping = False, isGenerating = False\<rparr>
     = (Suspended (js ''s1'') (TextPayload ([newline] @ js ''User: hi'' @ [newline] @ js ''AI:''))
          (js ''gpt-4o-mini''),
        \<lparr>sessions = [\<lparr>id_session = js ''s1'', title = js ''hi'',
                     messages = [\<lparr>role = User, content = js ''hi'', image_opt = None\<rparr>],
                     createdAt = 1\<rparr>],
         activeSessionId = Some (js ''s1''), isTyping = True, isGenerating = True\<rparr>)"
    by (simp add: handleSend_call_def handleSend_start_def Let_def
        generateResponse_enter_def build_payload_def createSession_def
        addUserMessage_def trimMessages_def MAX_MESSAGES_def js_def)
  from second_send_while_pending [OF first, of "js ''again''" None] show ?thesis
    by (simp add: addUserMessage_def addAiMessage_def trimMessages_def MAX_MESSAGES_def)
qed

section \<open>Text generation: totality and the guard\<close>







text \<open>
  Where \<open>JSON.stringify\<close> and \<open>String\<close> both raise on the rejection value, the
  exception of \<open>String\<close> leaves \<open>generateResponse\<close>, with the flag reset, and
  \<open>handleSend\<close> continues in its \<open>catch\<close> block.
\<close>

lemma generateResponse_resume_raises:
  assumes "stringify (JObject ps) = None" and "toStr (JObject ps) = Inl e"
  shows "generateResponse_resume stringify toStr (Rejected (JObject ps)) = (Inl e, False)"
  using assms
  by (simp add: generateResponse_resume_def after_await_def try_catch_def catch_block_def
        errorMessage_def)

lemma handleSend_resume_reaches_catch:
  assumes "stringify (JObject ps) = None" and "toStr (JObject ps) = Inl e"
  shows "handleSend_resume stringify toStr a (Rejected (JObject ps)) st
           = handleSend_finish a (Inl e) (st\<lparr>isGenerating := False\<rparr>)"
  using assms generateResponse_resume_raises [of stringify ps toStr e]
  by (simp add: handleSend_resume_def)




text \<open>
  Three runs of \<open>generateResponse\<close>: a rejection with an object that
  \<open>JSON.stringify\<close> refuses (it holds a BigInt) and \<open>String\<close> converts; the nested
  response shape; and a rejection with an object on which both raise, where the
  exception leaves the function.
\<close>

lemma generateResponse_example_rejected:
  "generateResponse
     (\<lambda>v. if v = JObject [(js ''n'', JBigInt 1)] then None else Some (js ''{}''))
     (\<lambda>v. Inr (js ''[object Object]'')) True
     (\<lambda>p m. Rejected (JObject [(js ''n'', JBigInt 1)])) False (js ''hi'') None None
   = (Inr (warning_sign @ js '' AI Error: [object Object]''), False)"
  by (simp add: generateResponse_def generateResponse_enter_def generateResponse_resume_def
       after_await_def try_catch_def catch_block_def errorMessage_def js_def)

lemma generateResponse_example_nested:
  "generateResponse (\<lambda>v. Some (js ''{}'')) (\<lambda>v. Inr (js ''[object Object]'')) True
            (\<lambda>p m. Resolved (JObject [(js ''message'', JObject [(js ''content'', JString (js '' Hello ''))])]))
            False (js ''hi'') None None
   = (Inr (js ''Hello''), False)"
  by (simp add: generateResponse_def generateResponse_enter_def generateResponse_resume_def
       after_await_def try_catch_def responseText_def Let_def js_or_def trim_def is_ws_def js_def)

lemma generateResponse_example_raises:
  "generateResponse (\<lambda>v. None)
     (\<lambda>v. Inl (JError (js ''Cannot convert object to primitive value''))) True
     (\<lambda>p m. Rejected (JObject [])) False (js ''hi'') None None
   = (Inl (JError (js ''Cannot convert object to primitive value'')), False)"
  by (simp add: generateResponse_def generateResponse_enter_def generateResponse_resume_def
       after_await_def try_catch_def catch_block_def errorMessage_def)

section \<open>Export followed by import\<close>

lemma split_newline_line:
  "newline \<notin> set l \<Longrightarrow> split_newline (l @ newline # rest) = l # split_newline rest"
  by (induction l) auto

lemma foldl_append_acc:
  "foldl (\<lambda>md msg. md @ g msg) acc ms = acc @ concat (map g ms)"
  by (induction ms arbitrary: acc) auto

lemma export_as_lines:
  "exportSessionToMarkdown session =
     (js ''# '' @ title session) @ newline # newline #
       concat (map (\<lambda>m. message_line m @ [newline, newline]) (messages session))"
  by (simp add: exportSessionToMarkdown_def foldl_append_acc message_line_def)

lemma newline_notin_js_literals:
  "newline \<notin> set (js ''# '')" "newline \<notin> set (js ''**'')" "newline \<notin> set (js ''User'')"
  "newline \<notin> set (js ''AI'')" "newline \<notin> set (js ''**: '')"
  by (simp_all add: js_def newline_def)

lemma newline_notin_message_line:
  "newline \<notin> set (content m) \<Longrightarrow> newline \<notin> set (message_line m)"
  by (simp add: message_line_def newline_notin_js_literals)

lemma split_message_lines:
  "\<forall>m \<in> set ms. newline \<notin> set (content m) \<Longrightarrow>
   split_newline (concat (map (\<lambda>m. message_line m @ [newline, newline]) ms))
     = concat (map (\<lambda>m. [message_line m, []]) ms) @ [[]]"
proof (induction ms)
  case Nil
  then show ?case by simp
next
  case (Cons m ms)
  then have nl: "newline \<notin> set (message_line m)"
    by (simp add: newline_notin_message_line)
  have "split_newline (message_line m @ newline # newline #
            concat (map (\<lambda>m. message_line m @ [newline, newline]) ms))
        = message_line m # split_newline (newline #
            concat (map (\<lambda>m. message_line m @ [newline, newline]) ms))"
    using nl by (rule split_newline_line)
  then show ?case using Cons by simp
qed

lemma split_export:
  assumes "newline \<notin> set (title session)"
    and "\<forall>m \<in> set (messages session). newline \<notin> set (content m)"
  shows "split_newline (exportSessionToMarkdown session)
     = (js ''# '' @ title session) # [] #
         concat (map (\<lambda>m. [message_line m, []]) (messages session)) @ [[]]"
proof -
  have "newline \<notin> set (js ''# '' @ title session)"
    using assms(1) by (simp add: newline_notin_js_literals)
  then have "split_newline (exportSessionToMarkdown session)
      = (js ''# '' @ title session) # split_newline (newline #
          concat (map (\<lambda>m. message_line m @ [newline, newline]) (messages session)))"
    unfolding export_as_lines by (rule split_newline_line)
  then show ?thesis using split_message_lines [OF assms(2)] by simp
qed

lemma trim_leading_space: "trim (0x20 # s) = trim s"
  by (simp add: trim_def is_ws_def)

lemma parse_line_empty: "parse_line st [] = st"
  by (simp add: parse_line_def startsWith_def js_def)

lemma parse_line_heading:
  "parse_line (t, ms) (js ''# '' @ s) = (trim s, ms)"
  by (simp add: parse_line_def startsWith_def substring_def js_def)

lemma parse_line_message_line:
  "parse_line (t, ms) (message_line m)
     = (t, ms @ [\<lparr>role = role m, content = trim (content m), image_opt = None\<rparr>])"
  by (cases "role m")
     (simp_all add: parse_line_def message_line_def startsWith_def substring_def js_def
        trim_leading_space)

lemma foldl_parse_message_lines:
  "foldl parse_line (t, acc) (concat (map (\<lambda>m. [message_line m, []]) ms))
     = (t, acc @ map (\<lambda>m. \<lparr>role = role m, content = trim (content m), image_opt = None\<rparr>) ms)"
  by (induction ms arbitrary: acc) (simp_all add: parse_line_message_line parse_line_empty)

text \<open>
  What importing an export gives, for a title and contents without newlines: nothing
  if the session has no message, and otherwise the title and every content trimmed,
  the roles kept and the images dropped.
\<close>

lemma import_export_general:
  assumes "newline \<notin> set (title session)"
    and "\<forall>m \<in> set (messages session). newline \<notin> set (content m)"
  shows "parseMarkdownToSession uuid now (exportSessionToMarkdown session)
     = (if messages session = [] then None
        else Some \<lparr>id_session = uuid, title = trim (title session),
                   messages = map (\<lambda>m. \<lparr>role = role m, content = trim (content m), image_opt = None\<rparr>)
                                (messages session),
                   createdAt = now\<rparr>)"
  by (simp add: parseMarkdownToSession_def Let_def split_export [OF assms]
        parse_line_heading parse_line_empty foldl_parse_message_lines)

text \<open>
  C3, as the code has it. For a session with at least one message, whose title has no
  newline and no white space at either end, and whose contents have no newline, no
  white space at either end and do not start with \<open>**User**:\<close> or \<open>**AI**:\<close>,
  importing its export succeeds and gives back the title and, in order, the role and
  the content of every message. (Images are not exported; the id and the creation time
  are new.)
\<close>

theorem import_export_roundtrip:
  assumes "messages session \<noteq> []"
    and "newline \<notin> set (title session)"
    and "trim (title session) = title session"
    and "\<forall>m \<in> set (messages session).
           newline \<notin> set (content m) \<and> trim (content m) = content m
           \<and> \<not> startsWith (content m) (js ''**User**:'')
           \<and> \<not> startsWith (content m) (js ''**AI**:'')"
  shows "parseMarkdownToSession uuid now (exportSessionToMarkdown session)
     = Some \<lparr>id_session = uuid, title = title session,
              messages = map (\<lambda>m. \<lparr>role = role m, content = content m, image_opt = None\<rparr>)
                           (messages session),
              createdAt = now\<rparr>"
proof -
  from assms(4) have nl: "\<forall>m \<in> set (messages session). newline \<notin> set (content m)"
    and tr: "\<forall>m \<in> set (messages session). trim (content m) = content m"
    by auto
  from tr have "map (\<lambda>m. \<lparr>role = role m, content = trim (content m), image_opt = None\<rparr>) (messages session)
      = map (\<lambda>m. \<lparr>role = role m, content = content m, image_opt = None\<rparr>) (messages session)"
    by simp
  with import_export_general [OF assms(2) nl, of uuid now] assms(1,3)
  show ?thesis by simp
qed

theorem import_export_roundtrip_witness:
  "parseMarkdownToSession (js ''u2'') 9
     (exportSessionToMarkdown
        \<lparr>id_session = js ''u1'', title = js ''Trip plan'',
         messages = [\<lparr>role = User, content = js ''hello there'', image_opt = Some (js ''data:x'')\<rparr>,
                     \<lparr>role = Ai, content = js ''hi'', image_opt = None\<rparr>],
         createdAt = 3\<rparr>)
   = Some \<lparr>id_session = js ''u2'', title = js ''Trip plan'',
            messages = [\<lparr>role = User, content = js ''hello there'', image_opt = None\<rparr>,
                        \<lparr>role = Ai, content = js ''hi'', image_opt = None\<rparr>],
            createdAt = 9\<rparr>"
proof -
  have h1: "messages \<lparr>id_session = js ''u1'', title = js ''Trip plan'',
         messages = [\<lparr>role = User, content = js ''hello there'', image_opt = Some (js ''data:x'')\<rparr>,
                     \<lparr>role = Ai, content = js ''hi'', image_opt = None\<rparr>],
         createdAt = 3\<rparr> \<noteq> []" by simp
  have h2: "newline \<notin> set (title \<lparr>id_session = js ''u1'', title = js ''Trip plan'',
         messages = [\<lparr>role = User, content = js ''hello there'', image_opt = Some (js ''data:x'')\<rparr>,
                     \<lparr>role = Ai, content = js ''hi'', image_opt = None\<rparr>],
         createdAt = 3\<rparr>)" by (simp add: js_def newline_def)
  have h3: "trim (title \<lparr>id_session = js ''u1'', title = js ''Trip plan'',
         messages = [\<lparr>role = User, content = js ''hello there'', image_opt = Some (js ''data:x'')\<rparr>,
                     \<lparr>role = Ai, content = js ''hi'', image_opt = None\<rparr>],
         createdAt = 3\<rparr>) = title \<lparr>id_session = js ''u1'', title = js ''Trip plan'',
         messages = [\<lparr>role = User, content = js ''hello there'', image_opt = Some (js ''data:x'')\<rparr>,
                     \<lparr>role = Ai, content = js ''hi'', image_opt = None\<rparr>],
         createdAt = 3\<rparr>" by (simp add: js_def trim_def is_ws_def)
  have h4: "\<forall>m \<in> set (messages \<lparr>id_session = js ''u1'', title = js ''Trip plan'',
         messages = [\<lparr>role = User, content = js ''hello there'', image_opt = Some (js ''data:x'')\<rparr>,
                     \<lparr>role = Ai, content = js ''hi'', image_opt = None\<rparr>],
         createdAt = 3\<rparr>).
           newline \<notin> set (content m) \<and> trim (content m) = content m
           \<and> \<not> startsWith (content m) (js ''**User**:'')
           \<and> \<not> startsWith (content m) (js ''**AI**:'')"
    by (simp add: js_def newline_def trim_def is_ws_def startsWith_def)
  from import_export_roundtrip [OF h1 h2 h3 h4, of "js ''u2''" 9] show ?thesis by simp
qed

text \<open>
  C3, as stated, fails: the content \<open>hi\<close> followed by a space has no newline and
  starts with neither prefix, and comes back without the space, because the import trims
  what follows the prefix.
\<close>

theorem import_export_trims_content:
  "parseMarkdownToSession (js ''u2'') 9
     (exportSessionToMarkdown
        \<lparr>id_session = js ''u1'', title = js ''Trip'',
         messages = [\<lparr>role = User, content = js ''hi '', image_opt = None\<rparr>],
         createdAt = 3\<rparr>)
   = Some \<lparr>id_session = js ''u2'', title = js ''Trip'',
            messages = [\<lparr>role = User, content = js ''hi'', image_opt = None\<rparr>],
            createdAt = 9\<rparr>
   \<and> js ''hi'' \<noteq> js ''hi ''
   \<and> newline \<notin> set (js ''hi '')
   \<and> \<not> startsWith (js ''hi '') (js ''**User**:'')
   \<and> \<not> startsWith (js ''hi '') (js ''**AI**:'')"
  by (simp add: parseMarkdownToSession_def exportSessionToMarkdown_def parse_line_def Let_def
        js_def newline_def startsWith_def substring_def trim_def is_ws_def)

end
